theory Spec2Isabelle
  imports Main "HOL-Library.Word" "HOL-Library.Multiset"
begin

section \<open>Data model\<close>

subsection \<open>Go base types\<close>

text \<open>
  A Go \<^verbatim>\<open>string\<close> is a byte sequence, here a \<^typ>\<open>string\<close>. A \<^verbatim>\<open>float64\<close> is only ever
  copied by the code under study, so it is kept as its 64-bit IEEE pattern; the one
  conversion \<^verbatim>\<open>int(f)\<close> is platform-defined outside the representable range and is taken
  from the environment. A Go \<^verbatim>\<open>int\<close> is never used in arithmetic by the modelled functions
  and is an \<^typ>\<open>int\<close>.
\<close>

type_synonym float64 = "64 word"

subsection \<open>package models (internal/models/printer.go)\<close>

record ProgressInfo =
  Completion :: float64
  PrintTime :: int
  PrintTimeLeft :: int
  EstimatedTotal :: int
  FileName :: string
  FilamentLength :: float64

record TemperatureInfo =
  BedActual :: float64
  BedTarget :: float64
  HotendActual :: float64
  HotendTarget :: float64

text \<open>
  The pointer fields \<^verbatim>\<open>Progress\<close> and \<^verbatim>\<open>Temperatures\<close> are options (\<open>None\<close> is nil).
  \<^verbatim>\<open>CurrentSpool\<close> is a Go map, which may be nil; its contents come from
  \<^verbatim>\<open>spoolman.FormatSpoolInfo\<close>, whose result type is the parameter \<open>'m\<close>.
\<close>

record 'm PrinterStatus =
  ID :: string
  Name :: string
  OctoPrintURL :: string
  Status :: string
  State :: string
  Progress :: "ProgressInfo option"
  Temperatures :: "TemperatureInfo option"
  CurrentSpool :: "'m option"
  ThumbnailURL :: string
  Error :: string

subsection \<open>package octoprint: the client and the upstream shapes\<close>

text \<open>The \<^verbatim>\<open>http.Client\<close> of a client only carries the 10 second timeout and is left out.\<close>

record Client =
  baseURL :: string
  apiKey :: string

definition NewClient :: "string \<Rightarrow> string \<Rightarrow> Client" where
  "NewClient url key = \<lparr>baseURL = url, apiKey = key\<rparr>"

record Flags =
  Operational :: bool
  Paused :: bool
  Printing :: bool
  Error_flag :: bool
  Ready :: bool

record PrinterState =
  Text :: string
  Flags :: Flags

record TemperatureData =
  Actual :: float64
  Target :: float64

record Temperature =
  Bed :: TemperatureData
  Tool0 :: TemperatureData

record PrinterResponse =
  State_pr :: PrinterState
  Temperature :: Temperature

record JobFile =
  Name_file :: string
  Size :: int
  Date :: int
  Path :: string
  Display :: string

record FilamentTool =
  Length :: float64
  Volume :: float64

record Filament =
  Tool0_fil :: FilamentTool

record Job =
  File :: JobFile
  EstimatedPrintTime :: float64
  LastPrintTime :: float64
  Filament :: Filament

record JobProgress =
  Completion_job :: float64
  Filepos :: int
  PrintTime_job :: int
  PrintTimeLeft_job :: int
  PrintTimeOrigin :: string

record JobResponse =
  Job :: Job
  Progress_job :: JobProgress
  State_job :: string

text \<open>The anonymous response struct of \<^verbatim>\<open>GetCurrentSpool\<close>.\<close>

record SpoolReply =
  Success :: bool
  SpoolID :: string
  Error_reply :: string

subsection \<open>Strings\<close>

text \<open>\<^verbatim>\<open>strings.HasSuffix\<close> and \<^verbatim>\<open>strings.TrimSuffix\<close> of the Go library.\<close>

definition HasSuffix :: "string \<Rightarrow> string \<Rightarrow> bool" where
  "HasSuffix s suf =
     (length suf \<le> length s \<and> drop (length s - length suf) s = suf)"

definition TrimSuffix :: "string \<Rightarrow> string \<Rightarrow> string" where
  "TrimSuffix s suf = (if HasSuffix s suf then take (length s - length suf) s else s)"

subsection \<open>GetThumbnail\<close>

definition thumbnail_template :: string where
  "thumbnail_template = ''/plugin/prusaslicerthumbnails/thumbnail/''"

definition GetThumbnail :: "Client \<Rightarrow> string \<Rightarrow> string" where
  "GetThumbnail c path =
     (if path = [] then []
      else
        let fileName = path;
            fileName = TrimSuffix fileName ''.gcode'';
            fileName = TrimSuffix fileName ''.bgcode''
        in baseURL c @ thumbnail_template @ fileName @ ''.png'')"

text \<open>
  The derivation as the specification words it: one trailing extension, \<^verbatim>\<open>.gcode\<close> or
  \<^verbatim>\<open>.bgcode\<close>, is removed and the template is applied to what is left.
\<close>

definition strip_extension_spec :: "string \<Rightarrow> string" where
  "strip_extension_spec path =
     (if HasSuffix path ''.gcode'' then take (length path - 6) path
      else if HasSuffix path ''.bgcode'' then take (length path - 7) path
      else path)"

definition thumbnail_spec :: "Client \<Rightarrow> string \<Rightarrow> string" where
  "thumbnail_spec c path =
     (if path = [] then []
      else baseURL c @ thumbnail_template @ strip_extension_spec path @ ''.png'')"

subsection \<open>Errors\<close>

text \<open>
  A Go \<^verbatim>\<open>error\<close> is observed by the code only through \<^verbatim>\<open>err != nil\<close> and
  \<^verbatim>\<open>err.Error()\<close>. The constructors record where the error is made:
  \<^verbatim>\<open>http.NewRequest\<close> (\<open>RequestError\<close>), \<^verbatim>\<open>httpClient.Do\<close> (\<open>TransportError\<close>), the
  status check of \<^verbatim>\<open>doRequest\<close> (\<open>UpstreamError\<close>), the JSON decoder (\<open>DecodeError\<close>) and
  the \<^verbatim>\<open>success\<close> check of \<^verbatim>\<open>GetCurrentSpool\<close> (\<open>ApiError\<close>). The messages of the three
  library errors are the library's.
\<close>

datatype go_error =
    RequestError string
  | TransportError string
  | UpstreamError int string
  | DecodeError string
  | ApiError string

fun decimal :: "nat \<Rightarrow> string" where
  "decimal n =
     (if n < 10 then [''0123456789'' ! n]
      else decimal (n div 10) @ [''0123456789'' ! (n mod 10)])"

declare decimal.simps [simp del]

text \<open>The verb \<^verbatim>\<open>%d\<close> of \<^verbatim>\<open>fmt\<close> on an \<^verbatim>\<open>int\<close>.\<close>

definition Sprintf_d :: "int \<Rightarrow> string" where
  "Sprintf_d i = (if i < 0 then ''-'' @ decimal (nat (- i)) else decimal (nat i))"

text \<open>\<^verbatim>\<open>err.Error()\<close>.\<close>

fun Error_text :: "go_error \<Rightarrow> string" where
  "Error_text (RequestError m) = m"
| "Error_text (TransportError m) = m"
| "Error_text (UpstreamError code body) = ''HTTP '' @ Sprintf_d code @ '': '' @ body"
| "Error_text (DecodeError m) = m"
| "Error_text (ApiError m) = ''API error: '' @ m"

subsection \<open>HTTP exchange and the environment\<close>

datatype json = JString string | JInt int

record Request =
  Method :: string
  URL :: string
  Header :: "(string \<times> string) list"
  Body :: "(string \<times> json) list option"

record Response =
  StatusCode :: int
  Body_resp :: string

text \<open>
  Everything outside the repository's own code that a poll cycle depends on:
  the network (\<open>http_Do\<close>, with \<open>Inl\<close> the transport error's message), the failure of
  \<^verbatim>\<open>http.NewRequest\<close> on a method and URL, the JSON decoder at the three response types,
  the conversion \<^verbatim>\<open>int(float64)\<close>, and package \<^verbatim>\<open>spoolman\<close>, which is not among the
  sources: \<open>spoolman_GetSpool\<close> takes the client (its base URL) and the spool identifier
  and returns the error message or the spool pointer (\<open>None\<close> is nil), \<open>FormatSpoolInfo\<close>
  returns the map (\<open>None\<close> is the nil map). \<open>'s\<close> is the type \<^verbatim>\<open>spoolman.Spool\<close>.
\<close>

record ('s, 'm) Env =
  http_Do :: "Request \<Rightarrow> string + Response"
  NewRequest_error :: "string \<Rightarrow> string \<Rightarrow> string option"
  decode_PrinterResponse :: "string \<Rightarrow> string + PrinterResponse"
  decode_JobResponse :: "string \<Rightarrow> string + JobResponse"
  decode_SpoolReply :: "string \<Rightarrow> string + SpoolReply"
  float64_to_int :: "float64 \<Rightarrow> int"
  spoolman_GetSpool :: "string \<Rightarrow> string \<Rightarrow> string + 's option"
  FormatSpoolInfo :: "'s \<Rightarrow> 'm option"

subsection \<open>Helper methods of the client\<close>

text \<open>
  \<^verbatim>\<open>newRequest\<close>: the body stays the payload itself, since \<^verbatim>\<open>json.Marshal\<close> cannot fail on
  a map of strings and integers.
\<close>

definition newRequest ::
  "('s, 'm) Env \<Rightarrow> Client \<Rightarrow> string \<Rightarrow> string \<Rightarrow> (string \<times> json) list option
     \<Rightarrow> go_error + Request" where
  "newRequest env c method path body =
     (let url = baseURL c @ path
      in case NewRequest_error env method url of
           Some m \<Rightarrow> Inl (RequestError m)
         | None \<Rightarrow>
             Inr \<lparr>Method = method, URL = url,
                  Header = [(''X-Api-Key'', apiKey c), (''Content-Type'', ''application/json'')],
                  Body = body\<rparr>)"

text \<open>
  \<^verbatim>\<open>doRequest\<close> with a non-nil result pointer: the decoded value is returned in place of
  being written through the pointer.
\<close>

definition doRequest ::
  "('s, 'm) Env \<Rightarrow> Request \<Rightarrow> (string \<Rightarrow> string + 'a) \<Rightarrow> go_error + 'a" where
  "doRequest env req decode =
     (case http_Do env req of
        Inl m \<Rightarrow> Inl (TransportError m)
      | Inr resp \<Rightarrow>
          if StatusCode resp \<ge> 400
          then Inl (UpstreamError (StatusCode resp) (Body_resp resp))
          else (case decode (Body_resp resp) of
                  Inl m \<Rightarrow> Inl (DecodeError m)
                | Inr v \<Rightarrow> Inr v))"

subsection \<open>The three upstream calls\<close>

definition GetPrinterState :: "('s, 'm) Env \<Rightarrow> Client \<Rightarrow> go_error + PrinterResponse" where
  "GetPrinterState env c =
     (case newRequest env c ''GET'' ''/api/printer'' None of
        Inl err \<Rightarrow> Inl err
      | Inr req \<Rightarrow> doRequest env req (decode_PrinterResponse env))"

definition GetJob :: "('s, 'm) Env \<Rightarrow> Client \<Rightarrow> go_error + JobResponse" where
  "GetJob env c =
     (case newRequest env c ''GET'' ''/api/job'' None of
        Inl err \<Rightarrow> Inl err
      | Inr req \<Rightarrow> doRequest env req (decode_JobResponse env))"

definition GetCurrentSpool :: "('s, 'm) Env \<Rightarrow> Client \<Rightarrow> int \<Rightarrow> go_error + string" where
  "GetCurrentSpool env c tool =
     (let payload = [(''command'', JString ''get_current_spool''), (''tool'', JInt tool)]
      in case newRequest env c ''POST'' ''/api/plugin/spoolman_api'' (Some payload) of
           Inl err \<Rightarrow> Inl err
         | Inr req \<Rightarrow>
             (case doRequest env req (decode_SpoolReply env) of
                Inl err \<Rightarrow> Inl err
              | Inr response \<Rightarrow>
                  if \<not> Success response then Inl (ApiError (Error_reply response))
                  else Inr (SpoolID response)))"

subsection \<open>package config and the handler\<close>

text \<open>
  Package \<^verbatim>\<open>config\<close> is not among the sources; \<^verbatim>\<open>config.Printer\<close> and \<^verbatim>\<open>config.Config\<close> have
  the fields the handler reads.
\<close>

record Printer =
  ID_cfg :: string
  Name_cfg :: string
  OctoPrintURL_cfg :: string
  APIKey :: string

record Config =
  Printers :: "Printer list"
  SpoolmanURL :: string

text \<open>The \<^verbatim>\<open>spoolman.Client\<close> of the handler is the base URL it was made from.\<close>

record Handler =
  config :: Config
  octoprintClients :: "string \<rightharpoonup> Client"
  spoolmanClient :: string

text \<open>\<^verbatim>\<open>NewHandler\<close>, from the configuration that \<^verbatim>\<open>config.LoadConfig\<close> returned.\<close>

definition NewHandler :: "Config \<Rightarrow> Handler" where
  "NewHandler cfg =
     \<lparr>config = cfg,
      octoprintClients =
        foldl (\<lambda>m printer. m(ID_cfg printer \<mapsto> NewClient (OctoPrintURL_cfg printer) (APIKey printer)))
          Map.empty (Printers cfg),
      spoolmanClient = SpoolmanURL cfg\<rparr>"

subsection \<open>fetchPrinterStatus\<close>

text \<open>
  What a pipeline does besides returning its record: the calls it makes on the printer's
  client and on the inventory client, and its log line, in order.
\<close>

datatype Event =
    CallGetPrinterState Client
  | CallGetJob Client
  | CallGetCurrentSpool Client int
  | CallGetSpool string string
  | LogPrintf string

text \<open>The \<^verbatim>\<open>if\<close> chain under \<^verbatim>\<open>// Set basic status\<close>, and the state text.\<close>

definition set_basic_status :: "PrinterResponse \<Rightarrow> 'm PrinterStatus \<Rightarrow> 'm PrinterStatus" where
  "set_basic_status printerResp status =
     (let status =
        (if Printing (Flags (State_pr printerResp)) then status\<lparr>Status := ''printing''\<rparr>
         else if Ready (Flags (State_pr printerResp)) then status\<lparr>Status := ''idle''\<rparr>
         else if Error_flag (Flags (State_pr printerResp)) then status\<lparr>Status := ''error''\<rparr>
         else status)
      in status\<lparr>State := Text (State_pr printerResp)\<rparr>)"

text \<open>\<^verbatim>\<open>// Set temperatures\<close>\<close>

definition set_temperatures :: "PrinterResponse \<Rightarrow> 'm PrinterStatus \<Rightarrow> 'm PrinterStatus" where
  "set_temperatures printerResp status =
     status\<lparr>Temperatures := Some
       \<lparr>BedActual = Actual (Bed (Temperature printerResp)),
        BedTarget = Target (Bed (Temperature printerResp)),
        HotendActual = Actual (Tool0 (Temperature printerResp)),
        HotendTarget = Target (Tool0 (Temperature printerResp))\<rparr>\<rparr>"

text \<open>\<^verbatim>\<open>// If printing, fetch job info\<close>\<close>

definition fetch_job_info ::
  "('s, 'm) Env \<Rightarrow> Client \<Rightarrow> 'm PrinterStatus \<Rightarrow> 'm PrinterStatus \<times> Event list" where
  "fetch_job_info env client status =
     (if Status status = ''printing'' then
        (case GetJob env client of
           Inr jobResp \<Rightarrow>
             (let status = status\<lparr>Progress := Some
                    \<lparr>Completion = Completion_job (Progress_job jobResp),
                     PrintTime = PrintTime_job (Progress_job jobResp),
                     PrintTimeLeft = PrintTimeLeft_job (Progress_job jobResp),
                     EstimatedTotal = float64_to_int env (EstimatedPrintTime (Job jobResp)),
                     FileName = Display (File (Job jobResp)),
                     FilamentLength = Length (Tool0_fil (Filament (Job jobResp)))\<rparr>\<rparr>;
                  status =
                    (if Path (File (Job jobResp)) \<noteq> []
                     then status\<lparr>ThumbnailURL := GetThumbnail client (Path (File (Job jobResp)))\<rparr>
                     else status)
              in (status, [CallGetJob client]))
         | Inl err \<Rightarrow> (status, [CallGetJob client]))
      else (status, []))"

text \<open>\<^verbatim>\<open>// Fetch current spool\<close>\<close>

definition fetch_current_spool ::
  "Handler \<Rightarrow> ('s, 'm) Env \<Rightarrow> Client \<Rightarrow> 'm PrinterStatus \<Rightarrow> 'm PrinterStatus \<times> Event list" where
  "fetch_current_spool h env client status =
     (case GetCurrentSpool env client 0 of
        Inr spoolID \<Rightarrow>
          (if spoolID \<noteq> [] then
             (case spoolman_GetSpool env (spoolmanClient h) spoolID of
                Inr (Some spool) \<Rightarrow>
                  (status\<lparr>CurrentSpool := FormatSpoolInfo env spool\<rparr>,
                   [CallGetCurrentSpool client 0, CallGetSpool (spoolmanClient h) spoolID])
              | Inr None \<Rightarrow>
                  (status, [CallGetCurrentSpool client 0, CallGetSpool (spoolmanClient h) spoolID])
              | Inl err \<Rightarrow>
                  (status, [CallGetCurrentSpool client 0, CallGetSpool (spoolmanClient h) spoolID]))
           else (status, [CallGetCurrentSpool client 0]))
      | Inl err \<Rightarrow> (status, [CallGetCurrentSpool client 0]))"

text \<open>The record a pipeline starts from.\<close>

definition initial_status :: "Printer \<Rightarrow> 'm PrinterStatus" where
  "initial_status printer =
     \<lparr>ID = ID_cfg printer, Name = Name_cfg printer, OctoPrintURL = OctoPrintURL_cfg printer,
      Status = ''offline'', State = [], Progress = None, Temperatures = None,
      CurrentSpool = None, ThumbnailURL = [], Error = []\<rparr>"

definition fetchPrinterStatus ::
  "Handler \<Rightarrow> ('s, 'm) Env \<Rightarrow> Printer \<Rightarrow> 'm PrinterStatus \<times> Event list" where
  "fetchPrinterStatus h env printer =
     (let status = initial_status printer
      in case octoprintClients h (ID_cfg printer) of
           None \<Rightarrow> (status\<lparr>Error := ''No client configured''\<rparr>, [])
         | Some client \<Rightarrow>
             (case GetPrinterState env client of
                Inl err \<Rightarrow>
                  (status\<lparr>Error := Error_text err\<rparr>,
                   [CallGetPrinterState client,
                    LogPrintf (''Error fetching printer state for '' @ Name_cfg printer
                                 @ '': '' @ Error_text err)])
              | Inr printerResp \<Rightarrow>
                  (let status = set_basic_status printerResp status;
                       status = set_temperatures printerResp status;
                       (status, job_events) = fetch_job_info env client status;
                       (status, spool_events) = fetch_current_spool h env client status
                   in (status, CallGetPrinterState client # job_events @ spool_events))))"

subsection \<open>handleStatus\<close>

text \<open>
  One goroutine per configured printer computes its record and sends it on the buffered
  channel; the handler waits for all of them, closes the channel and appends what it
  receives, in the order of the sends. Which goroutine sends next is the scheduler's and
  the network's choice: the schedule gives, at each step, the index (modulo their number)
  of the goroutine among those still running that completes next, and an exhausted
  schedule lets them complete in launch order.
\<close>

function complete_sends :: "nat list \<Rightarrow> 'a list \<Rightarrow> 'a list \<Rightarrow> 'a list" where
  "complete_sends sched [] chan = chan"
| "complete_sends [] (p # ps) chan = complete_sends [] ps (chan @ [p])"
| "complete_sends (k # sched) (p # ps) chan =
     (let i = k mod length (p # ps)
      in complete_sends sched (take i (p # ps) @ drop (Suc i) (p # ps)) (chan @ [(p # ps) ! i]))"
  by pat_completeness auto
termination
  by (relation "measure (\<lambda>(sched, pending, chan). length pending)") auto

text \<open>The JSON object of the response: \<^verbatim>\<open>{"status": "ok", "printers": printers}\<close>.\<close>

record 'm StatusResponse =
  status_json :: string
  printers_json :: "'m PrinterStatus list"

definition handleStatus ::
  "Handler \<Rightarrow> ('s, 'm) Env \<Rightarrow> nat list \<Rightarrow> 'm StatusResponse" where
  "handleStatus h env sched =
     (let statusChan =
            complete_sends sched
              (map (\<lambda>p. fst (fetchPrinterStatus h env p)) (Printers (config h))) [];
          printers = statusChan
      in \<lparr>status_json = ''ok'', printers_json = printers\<rparr>)"

subsection \<open>Reading a pipeline's events\<close>


fun is_spool_id_call :: "Event \<Rightarrow> bool" where
  "is_spool_id_call (CallGetCurrentSpool c tool) = True"
| "is_spool_id_call e = False"

fun is_inventory_call :: "Event \<Rightarrow> bool" where
  "is_inventory_call (CallGetSpool client spoolID) = True"
| "is_inventory_call e = False"

fun is_job_call :: "Event \<Rightarrow> bool" where
  "is_job_call (CallGetJob c) = True"
| "is_job_call e = False"

text \<open>
  The spool steps fail when the identifier fetch returns an error, or when it returns an
  identifier and the inventory lookup of that identifier returns an error.
\<close>

definition spool_steps_failed :: "Handler \<Rightarrow> ('s, 'm) Env \<Rightarrow> Client \<Rightarrow> bool" where
  "spool_steps_failed h env client =
     (case GetCurrentSpool env client 0 of
        Inl err \<Rightarrow> True
      | Inr spoolID \<Rightarrow>
          spoolID \<noteq> [] \<and> isl (spoolman_GetSpool env (spoolmanClient h) spoolID))"

subsection \<open>A stub upstream\<close>

text \<open>
  A stub network for concrete runs: a table from request URL to the outcome of the
  exchange (a URL not in the table refuses the connection), and a table from spool
  identifier to the outcome of the inventory lookup. The stub decoders read a printer
  state written as three flag characters (printing, ready, error), a job written as its
  file path, and a spool reply written \<^verbatim>\<open>ok:<id>\<close> or \<^verbatim>\<open>no:<message>\<close>.
\<close>

definition stub_PrinterResponse :: "bool \<Rightarrow> bool \<Rightarrow> bool \<Rightarrow> PrinterResponse" where
  "stub_PrinterResponse printing ready err =
     \<lparr>State_pr =
        \<lparr>Text = (if printing then ''Printing'' else if ready then ''Operational'' else ''Error''),
         Flags = \<lparr>Operational = ready \<or> printing, Paused = False, Printing = printing,
                  Error_flag = err, Ready = ready\<rparr>\<rparr>,
      Temperature =
        \<lparr>Bed = \<lparr>Actual = 60, Target = 60\<rparr>, Tool0 = \<lparr>Actual = 215, Target = 220\<rparr>\<rparr>\<rparr>"

definition stub_decode_printer :: "string \<Rightarrow> string + PrinterResponse" where
  "stub_decode_printer body =
     (case body of
        [p, r, e] \<Rightarrow> Inr (stub_PrinterResponse (p = CHR ''1'') (r = CHR ''1'') (e = CHR ''1''))
      | _ \<Rightarrow> Inl ''unexpected end of JSON input'')"

definition stub_JobResponse :: "string \<Rightarrow> JobResponse" where
  "stub_JobResponse path =
     \<lparr>Job =
        \<lparr>File = \<lparr>Name_file = path, Size = 1024, Date = 0, Path = path, Display = path\<rparr>,
         EstimatedPrintTime = 0, LastPrintTime = 0,
         Filament = \<lparr>Tool0_fil = \<lparr>Length = 0, Volume = 0\<rparr>\<rparr>\<rparr>,
      Progress_job =
        \<lparr>Completion_job = 0, Filepos = 512, PrintTime_job = 90, PrintTimeLeft_job = 30,
         PrintTimeOrigin = ''estimate''\<rparr>,
      State_job = ''Printing''\<rparr>"

definition stub_decode_spool :: "string \<Rightarrow> string + SpoolReply" where
  "stub_decode_spool body =
     (if take 3 body = ''ok:'' then Inr \<lparr>Success = True, SpoolID = drop 3 body, Error_reply = []\<rparr>
      else if take 3 body = ''no:'' then Inr \<lparr>Success = False, SpoolID = [], Error_reply = drop 3 body\<rparr>
      else Inl ''invalid character'')"

definition stub_Env ::
  "(string \<times> (string + Response)) list \<Rightarrow> (string \<times> (string + string option)) list
     \<Rightarrow> (string, string) Env" where
  "stub_Env routes spools =
     \<lparr>http_Do = (\<lambda>req. case map_of routes (URL req) of
                          Some outcome \<Rightarrow> outcome
                        | None \<Rightarrow> Inl ''connection refused''),
      NewRequest_error = (\<lambda>method url. None),
      decode_PrinterResponse = stub_decode_printer,
      decode_JobResponse = (\<lambda>body. Inr (stub_JobResponse body)),
      decode_SpoolReply = stub_decode_spool,
      float64_to_int = (\<lambda>f. 0),
      spoolman_GetSpool = (\<lambda>client spoolID. case map_of spools spoolID of
                                               Some outcome \<Rightarrow> outcome
                                             | None \<Rightarrow> Inl ''HTTP 404: not found''),
      FormatSpoolInfo = Some\<rparr>"

definition ok_response :: "string \<Rightarrow> string + Response" where
  "ok_response body = Inr \<lparr>StatusCode = 200, Body_resp = body\<rparr>"

definition printer_a :: Printer where
  "printer_a = \<lparr>ID_cfg = ''a'', Name_cfg = ''Alpha'', OctoPrintURL_cfg = ''http://a'', APIKey = ''ka''\<rparr>"

definition printer_b :: Printer where
  "printer_b = \<lparr>ID_cfg = ''b'', Name_cfg = ''Beta'', OctoPrintURL_cfg = ''http://b'', APIKey = ''kb''\<rparr>"

definition client_a :: Client where
  "client_a = \<lparr>baseURL = ''http://a'', apiKey = ''ka''\<rparr>"

definition two_printers :: Config where
  "two_printers = \<lparr>Printers = [printer_a, printer_b], SpoolmanURL = ''http://spoolman''\<rparr>"

text \<open>A handler whose client map lacks the configured printer.\<close>

definition handler_without_client :: Handler where
  "handler_without_client =
     \<lparr>config = \<lparr>Printers = [printer_a], SpoolmanURL = ''http://spoolman''\<rparr>,
      octoprintClients = Map.empty,
      spoolmanClient = ''http://spoolman''\<rparr>"

text \<open>An upstream where printer a is printing and printer b refuses the connection.\<close>

definition upstream_a_printing :: "(string, string) Env" where
  "upstream_a_printing =
     stub_Env [(''http://a/api/printer'', ok_response ''100''),
               (''http://a/api/job'', ok_response ''foo/bar.gcode''),
               (''http://a/api/plugin/spoolman_api'', ok_response ''ok:7'')]
              [(''7'', Inr (Some ''PLA''))]"

section \<open>Properties\<close>

lemma HasSuffix_append [simp]: "HasSuffix (s @ suf) suf"
  by (simp add: HasSuffix_def)

lemma HasSuffix_iff: "HasSuffix s suf \<longleftrightarrow> (\<exists>t. s = t @ suf)"
proof
  assume h: "HasSuffix s suf"
  have "s = take (length s - length suf) s @ drop (length s - length suf) s"
    by simp
  with h show "\<exists>t. s = t @ suf"
    unfolding HasSuffix_def by metis
next
  assume "\<exists>t. s = t @ suf"
  then show "HasSuffix s suf" by auto
qed

lemma TrimSuffix_append [simp]: "TrimSuffix (s @ suf) suf = s"
  by (simp add: TrimSuffix_def)

lemma TrimSuffix_none: "\<not> HasSuffix s suf \<Longrightarrow> TrimSuffix s suf = s"
  by (simp add: TrimSuffix_def)


subsection \<open>The stages of a pipeline\<close>

lemma fetch_job_info_frame:
  "fst (fetch_job_info env c st) =
     st\<lparr>Progress := Progress (fst (fetch_job_info env c st)),
        ThumbnailURL := ThumbnailURL (fst (fetch_job_info env c st))\<rparr>"
  by (simp add: fetch_job_info_def Let_def split: sum.splits)

lemma fetch_job_info_failed:
  "GetJob env c = Inl err \<Longrightarrow> Status st = ''printing'' \<Longrightarrow>
     fetch_job_info env c st = (st, [CallGetJob c])"
  by (simp add: fetch_job_info_def)

lemma fetch_job_info_events:
  "snd (fetch_job_info env c st) = (if Status st = ''printing'' then [CallGetJob c] else [])"
  by (simp add: fetch_job_info_def Let_def split: sum.splits)

lemma fetch_current_spool_frame:
  "fst (fetch_current_spool h env c st) =
     st\<lparr>CurrentSpool := CurrentSpool (fst (fetch_current_spool h env c st))\<rparr>"
  by (simp add: fetch_current_spool_def split: sum.splits option.splits)

lemma fetch_current_spool_failed:
  "spool_steps_failed h env c \<Longrightarrow> fst (fetch_current_spool h env c st) = st"
  by (auto simp add: fetch_current_spool_def spool_steps_failed_def isl_def
      split: sum.splits option.splits)

lemma fetch_current_spool_events:
  "filter is_spool_id_call (snd (fetch_current_spool h env c st)) = [CallGetCurrentSpool c 0]"
  by (simp add: fetch_current_spool_def split: sum.splits option.splits)

lemma fetch_current_spool_no_job:
  "filter is_job_call (snd (fetch_current_spool h env c st)) = []"
  by (simp add: fetch_current_spool_def split: sum.splits option.splits)

lemma fetch_current_spool_empty_id:
  "GetCurrentSpool env c 0 = Inr [] \<Longrightarrow>
     fetch_current_spool h env c st = (st, [CallGetCurrentSpool c 0])"
  by (simp add: fetch_current_spool_def)

text \<open>The three ways through \<open>fetchPrinterStatus\<close>.\<close>

lemma fetchPrinterStatus_no_client:
  assumes "octoprintClients h (ID_cfg p) = None"
  shows "fetchPrinterStatus h env p = ((initial_status p)\<lparr>Error := ''No client configured''\<rparr>, [])"
  using assms by (simp add: fetchPrinterStatus_def)

lemma fetchPrinterStatus_state_failed:
  assumes "octoprintClients h (ID_cfg p) = Some c" and "GetPrinterState env c = Inl err"
  shows "fetchPrinterStatus h env p =
     ((initial_status p)\<lparr>Error := Error_text err\<rparr>,
      [CallGetPrinterState c,
       LogPrintf (''Error fetching printer state for '' @ Name_cfg p @ '': '' @ Error_text err)])"
  using assms by (simp add: fetchPrinterStatus_def)

lemma fetchPrinterStatus_fetched:
  assumes "octoprintClients h (ID_cfg p) = Some c" and "GetPrinterState env c = Inr r"
  shows "fetchPrinterStatus h env p =
     (fst (fetch_current_spool h env c
            (fst (fetch_job_info env c (set_temperatures r (set_basic_status r (initial_status p)))))),
      CallGetPrinterState c
        # snd (fetch_job_info env c (set_temperatures r (set_basic_status r (initial_status p))))
        @ snd (fetch_current_spool h env c
            (fst (fetch_job_info env c (set_temperatures r (set_basic_status r (initial_status p)))))))"
  using assms by (simp add: fetchPrinterStatus_def Let_def split_beta)

lemma Status_classified:
  "Status (set_temperatures r (set_basic_status r (initial_status p))) =
     (if Printing (Flags (State_pr r)) then ''printing''
      else if Ready (Flags (State_pr r)) then ''idle''
      else if Error_flag (Flags (State_pr r)) then ''error''
      else ''offline'')"
  by (simp add: set_temperatures_def set_basic_status_def initial_status_def)

lemma Status_fetch_job_info: "Status (fst (fetch_job_info env c st)) = Status st"
  by (subst fetch_job_info_frame) simp

lemma Status_fetch_current_spool: "Status (fst (fetch_current_spool h env c st)) = Status st"
  by (subst fetch_current_spool_frame) simp


subsection \<open>Concrete runs against the stub upstream\<close>

lemma NewHandler_two_printers_a:
  "octoprintClients (NewHandler two_printers) (ID_cfg printer_a) = Some client_a"
  by (simp add: NewHandler_def two_printers_def printer_a_def printer_b_def NewClient_def
      client_a_def)


subsection \<open>Classification\<close>

text \<open>
  C2. Once the state fetch has succeeded, the status of the record is decided by the raw
  flags in a fixed priority order, the first match winning: \<^verbatim>\<open>printing\<close> gives "printing"
  (whatever the error flag), else \<^verbatim>\<open>ready\<close> gives "idle", else \<^verbatim>\<open>error\<close> gives "error",
  else the status stays "offline". This holds for every combination of the flags, and
  neither the job stage nor the spool stage changes the status afterwards.
\<close>

theorem classification_priority:
  assumes "octoprintClients h (ID_cfg p) = Some c" and "GetPrinterState env c = Inr r"
  shows "Status (fst (fetchPrinterStatus h env p)) =
     (if Printing (Flags (State_pr r)) then ''printing''
      else if Ready (Flags (State_pr r)) then ''idle''
      else if Error_flag (Flags (State_pr r)) then ''error''
      else ''offline'')"
  by (simp add: fetchPrinterStatus_fetched [OF assms] Status_fetch_current_spool
      Status_fetch_job_info Status_classified)

text \<open>A printer flagged both printing and error is reported as printing.\<close>

theorem classification_priority_witness:
  "Status (fst (fetchPrinterStatus (NewHandler two_printers)
      (stub_Env [(''http://a/api/printer'', ok_response ''101'')] []) printer_a)) = ''printing''"
proof -
  have s: "GetPrinterState (stub_Env [(''http://a/api/printer'', ok_response ''101'')] []) client_a
             = Inr (stub_PrinterResponse True False True)"
    by (simp add: GetPrinterState_def newRequest_def doRequest_def stub_Env_def client_a_def
        ok_response_def stub_decode_printer_def)
  show ?thesis
    using classification_priority [OF NewHandler_two_printers_a s]
    by (simp add: stub_PrinterResponse_def)
qed

subsection \<open>Failure of the state fetch\<close>







subsection \<open>handleStatus: what is collected\<close>

lemma mset_remove_nth:
  "i < length xs \<Longrightarrow> mset (take i xs @ drop (Suc i) xs) + {#xs ! i#} = mset xs"
proof -
  assume "i < length xs"
  then have "xs = take i xs @ xs ! i # drop (Suc i) xs"
    by (rule id_take_nth_drop)
  then have "mset xs = mset (take i xs @ xs ! i # drop (Suc i) xs)"
    by simp
  then show ?thesis by simp
qed

lemma mset_complete_sends:
  "mset (complete_sends sched pending chan) = mset pending + mset chan"
proof (induction sched pending chan rule: complete_sends.induct)
  case (1 sched chan)
  show ?case by simp
next
  case (2 p ps chan)
  then show ?case by simp
next
  case (3 k sched p ps chan)
  let ?i = "k mod length (p # ps)"
  have i: "?i < length (p # ps)" by simp
  have "mset (complete_sends (k # sched) (p # ps) chan) =
          mset (take ?i (p # ps) @ drop (Suc ?i) (p # ps)) + mset (chan @ [(p # ps) ! ?i])"
    using "3.IH" [of ?i] by (simp add: Let_def)
  also have "\<dots> = (mset (take ?i (p # ps) @ drop (Suc ?i) (p # ps)) + {#(p # ps) ! ?i#}) + mset chan"
    by simp
  also have "\<dots> = mset (p # ps) + mset chan"
    by (simp only: mset_remove_nth [OF i])
  finally show ?case .
qed

lemma complete_sends_launch_order: "complete_sends [] pending chan = chan @ pending"
  by (induction pending arbitrary: chan) simp_all

lemma mset_handleStatus:
  "mset (printers_json (handleStatus h env sched)) =
     mset (map (\<lambda>p. fst (fetchPrinterStatus h env p)) (Printers (config h)))"
  by (simp add: handleStatus_def mset_complete_sends)

lemma length_handleStatus:
  "length (printers_json (handleStatus h env sched)) = length (Printers (config h))"
proof -
  have "size (mset (printers_json (handleStatus h env sched))) =
          size (mset (map (\<lambda>p. fst (fetchPrinterStatus h env p)) (Printers (config h))))"
    by (simp only: mset_handleStatus)
  then show ?thesis by simp
qed

lemma set_handleStatus:
  "set (printers_json (handleStatus h env sched)) =
     (\<lambda>p. fst (fetchPrinterStatus h env p)) ` set (Printers (config h))"
proof -
  have "set_mset (mset (printers_json (handleStatus h env sched))) =
          set_mset (mset (map (\<lambda>p. fst (fetchPrinterStatus h env p)) (Printers (config h))))"
    by (simp only: mset_handleStatus)
  then show ?thesis by simp
qed

lemma status_json_handleStatus: "status_json (handleStatus h env sched) = ''ok''"
  by (simp add: handleStatus_def)

subsection \<open>A printer without a client\<close>

text \<open>
  A handler made by \<open>NewHandler\<close> has a client for every configured printer, so a lookup
  can only miss in a handler built otherwise.
\<close>

lemma dom_foldl_clients:
  "dom (foldl (\<lambda>m printer. m(ID_cfg printer \<mapsto> f printer)) m0 ps) = dom m0 \<union> ID_cfg ` set ps"
  by (induction ps arbitrary: m0) auto

lemma NewHandler_has_client:
  "p \<in> set (Printers cfg) \<Longrightarrow> octoprintClients (NewHandler cfg) (ID_cfg p) \<noteq> None"
proof -
  assume "p \<in> set (Printers cfg)"
  then have "ID_cfg p \<in> dom (octoprintClients (NewHandler cfg))"
    by (simp add: NewHandler_def dom_foldl_clients)
  then show ?thesis by blast
qed

text \<open>
  C4, as stated: a configured printer without a client mapping makes the whole poll fail
  and no snapshot is produced. On the code the poll answers as usual: for the handler
  whose client map is empty, the response is the object with status "ok" and the one
  record of the configured printer, offline, with the error "No client configured".
\<close>

theorem missing_client_snapshot_counterexample:
  "handleStatus handler_without_client (stub_Env [] []) [] =
     \<lparr>status_json = ''ok'',
      printers_json =
        [\<lparr>ID = ''a'', Name = ''Alpha'', OctoPrintURL = ''http://a'', Status = ''offline'',
          State = [], Progress = None, Temperatures = None, CurrentSpool = None,
          ThumbnailURL = [], Error = ''No client configured''\<rparr>]\<rparr>"
  by (simp add: handleStatus_def handler_without_client_def fetchPrinterStatus_def
      initial_status_def printer_a_def)

text \<open>
  C4, amended: a configured printer without a client mapping does not abort the poll. Its
  pipeline makes no upstream call and returns the record with status "offline", the error
  "No client configured" and no other block; the response still has status "ok", holds
  one record per configured printer, and that record is among them.
\<close>

theorem missing_client_offline_record:
  assumes missing: "octoprintClients h (ID_cfg p) = None"
    and configured: "p \<in> set (Printers (config h))"
  shows "fetchPrinterStatus h env p =
           (\<lparr>ID = ID_cfg p, Name = Name_cfg p, OctoPrintURL = OctoPrintURL_cfg p,
             Status = ''offline'', State = [], Progress = None, Temperatures = None,
             CurrentSpool = None, ThumbnailURL = [], Error = ''No client configured''\<rparr>, [])
       \<and> status_json (handleStatus h env sched) = ''ok''
       \<and> length (printers_json (handleStatus h env sched)) = length (Printers (config h))
       \<and> fst (fetchPrinterStatus h env p) \<in> set (printers_json (handleStatus h env sched))"
proof -
  have "fst (fetchPrinterStatus h env p) \<in> set (printers_json (handleStatus h env sched))"
    using configured by (simp add: set_handleStatus)
  then show ?thesis
    by (simp add: fetchPrinterStatus_no_client [OF missing] initial_status_def
        status_json_handleStatus length_handleStatus)
qed

theorem missing_client_offline_record_witness:
  "fetchPrinterStatus handler_without_client (stub_Env [] []) printer_a =
     (\<lparr>ID = ''a'', Name = ''Alpha'', OctoPrintURL = ''http://a'', Status = ''offline'',
       State = [], Progress = None, Temperatures = None, CurrentSpool = None,
       ThumbnailURL = [], Error = ''No client configured''\<rparr>, [])
   \<and> length (printers_json (handleStatus handler_without_client (stub_Env [] []) [0])) = 1"
proof -
  have m: "octoprintClients handler_without_client (ID_cfg printer_a) = None"
    by (simp add: handler_without_client_def)
  have c: "printer_a \<in> set (Printers (config handler_without_client))"
    by (simp add: handler_without_client_def)
  show ?thesis
    using missing_client_offline_record [OF m c, of "stub_Env [] []" "[0]"]
    by (simp add: printer_a_def handler_without_client_def)
qed

subsection \<open>Identity fields\<close>

lemma identity_initial:
  "ID (set_temperatures r (set_basic_status r (initial_status p))) = ID_cfg p
   \<and> Name (set_temperatures r (set_basic_status r (initial_status p))) = Name_cfg p
   \<and> OctoPrintURL (set_temperatures r (set_basic_status r (initial_status p))) = OctoPrintURL_cfg p"
  by (simp add: set_temperatures_def set_basic_status_def initial_status_def)

lemma identity_fetch_job_info:
  "ID (fst (fetch_job_info env c st)) = ID st
   \<and> Name (fst (fetch_job_info env c st)) = Name st
   \<and> OctoPrintURL (fst (fetch_job_info env c st)) = OctoPrintURL st"
  by (simp add: fetch_job_info_def Let_def split: sum.splits)

lemma identity_fetch_current_spool:
  "ID (fst (fetch_current_spool h env c st)) = ID st
   \<and> Name (fst (fetch_current_spool h env c st)) = Name st
   \<and> OctoPrintURL (fst (fetch_current_spool h env c st)) = OctoPrintURL st"
  by (simp add: fetch_current_spool_def split: sum.splits option.splits)

text \<open>
  C9. Whatever the pipeline meets (no client mapping, a failed state fetch, a failed or
  successful job fetch, failed or successful spool steps), the id, name and base URL of
  the record are those of the printer's configuration.
\<close>

theorem identity_fields_from_configuration:
  "ID (fst (fetchPrinterStatus h env p)) = ID_cfg p
   \<and> Name (fst (fetchPrinterStatus h env p)) = Name_cfg p
   \<and> OctoPrintURL (fst (fetchPrinterStatus h env p)) = OctoPrintURL_cfg p"
proof (cases "octoprintClients h (ID_cfg p)")
  case None
  then show ?thesis
    by (simp add: fetchPrinterStatus_no_client initial_status_def)
next
  case (Some c)
  show ?thesis
  proof (cases "GetPrinterState env c")
    case (Inl err)
    with Some show ?thesis
      by (simp add: fetchPrinterStatus_state_failed initial_status_def)
  next
    case (Inr r)
    show ?thesis
      by (simp add: fetchPrinterStatus_fetched [OF Some Inr] identity_fetch_current_spool
          identity_fetch_job_info identity_initial)
  qed
qed



subsection \<open>Failure of the job fetch\<close>

lemma fetched_blocks:
  "Temperatures (set_temperatures r (set_basic_status r (initial_status p))) =
     Some \<lparr>BedActual = Actual (Bed (Temperature r)), BedTarget = Target (Bed (Temperature r)),
           HotendActual = Actual (Tool0 (Temperature r)),
           HotendTarget = Target (Tool0 (Temperature r))\<rparr>
   \<and> Progress (set_temperatures r (set_basic_status r (initial_status p))) = None
   \<and> ThumbnailURL (set_temperatures r (set_basic_status r (initial_status p))) = []
   \<and> CurrentSpool (set_temperatures r (set_basic_status r (initial_status p))) = None
   \<and> Error (set_temperatures r (set_basic_status r (initial_status p))) = []"
  by (simp add: set_temperatures_def set_basic_status_def initial_status_def)

lemma blocks_fetch_current_spool:
  "Temperatures (fst (fetch_current_spool h env c st)) = Temperatures st
   \<and> Progress (fst (fetch_current_spool h env c st)) = Progress st
   \<and> ThumbnailURL (fst (fetch_current_spool h env c st)) = ThumbnailURL st
   \<and> Error (fst (fetch_current_spool h env c st)) = Error st"
  by (simp add: fetch_current_spool_def split: sum.splits option.splits)

lemma blocks_fetch_job_info:
  "Temperatures (fst (fetch_job_info env c st)) = Temperatures st
   \<and> CurrentSpool (fst (fetch_job_info env c st)) = CurrentSpool st
   \<and> Error (fst (fetch_job_info env c st)) = Error st"
  by (simp add: fetch_job_info_def Let_def split: sum.splits)

lemma job_calls_fetchPrinterStatus:
  "(filter is_job_call (snd (fetchPrinterStatus h env p)) \<noteq> []) =
     (Status (fst (fetchPrinterStatus h env p)) = ''printing'')"
proof (cases "octoprintClients h (ID_cfg p)")
  case None
  then show ?thesis
    by (simp add: fetchPrinterStatus_no_client initial_status_def)
next
  case (Some c)
  show ?thesis
  proof (cases "GetPrinterState env c")
    case (Inl err)
    with Some show ?thesis
      by (simp add: fetchPrinterStatus_state_failed initial_status_def)
  next
    case (Inr r)
    show ?thesis
      by (simp add: fetchPrinterStatus_fetched [OF Some Inr] fetch_current_spool_no_job
          fetch_job_info_events Status_fetch_current_spool Status_fetch_job_info)
  qed
qed

lemma stub_GetPrinterState_ok:
  "GetPrinterState (stub_Env ((''http://a/api/printer'', ok_response [p, r, e]) # routes) spools)
     client_a = Inr (stub_PrinterResponse (p = CHR ''1'') (r = CHR ''1'') (e = CHR ''1''))"
  by (simp add: GetPrinterState_def newRequest_def doRequest_def stub_Env_def client_a_def
      ok_response_def stub_decode_printer_def)

text \<open>
  C6. When the printer is classified "printing" and its job fetch fails, the record still
  has status "printing" and its temperature block, has no progress block (and no
  thumbnail and no error), and the pipeline goes on to the spool stage: the failure of
  the job fetch does not fail the pipeline. Moreover, for every printer and every
  outcome, the pipeline calls the job fetch exactly when the status of its record is
  "printing".
\<close>

theorem job_fetch_failure_keeps_printing:
  "(octoprintClients h (ID_cfg p) = Some c \<and> GetPrinterState env c = Inr r
      \<and> Printing (Flags (State_pr r)) \<and> GetJob env c = Inl err \<longrightarrow>
        Status (fst (fetchPrinterStatus h env p)) = ''printing''
      \<and> Temperatures (fst (fetchPrinterStatus h env p)) =
          Some \<lparr>BedActual = Actual (Bed (Temperature r)), BedTarget = Target (Bed (Temperature r)),
                HotendActual = Actual (Tool0 (Temperature r)),
                HotendTarget = Target (Tool0 (Temperature r))\<rparr>
      \<and> Progress (fst (fetchPrinterStatus h env p)) = None
      \<and> ThumbnailURL (fst (fetchPrinterStatus h env p)) = []
      \<and> Error (fst (fetchPrinterStatus h env p)) = []
      \<and> filter is_job_call (snd (fetchPrinterStatus h env p)) = [CallGetJob c]
      \<and> filter is_spool_id_call (snd (fetchPrinterStatus h env p)) = [CallGetCurrentSpool c 0])
   \<and> ((filter is_job_call (snd (fetchPrinterStatus h env p)) \<noteq> []) =
        (Status (fst (fetchPrinterStatus h env p)) = ''printing''))"
proof (intro conjI impI)
  assume a: "octoprintClients h (ID_cfg p) = Some c \<and> GetPrinterState env c = Inr r
      \<and> Printing (Flags (State_pr r)) \<and> GetJob env c = Inl err"
  let ?s0 = "set_temperatures r (set_basic_status r (initial_status p)) :: 'b PrinterStatus"
  from a have client: "octoprintClients h (ID_cfg p) = Some c"
    and state: "GetPrinterState env c = Inr r"
    and printing: "Printing (Flags (State_pr r))"
    and job: "GetJob env c = Inl err"
    by simp_all
  have s0: "Status ?s0 = ''printing''"
    using printing by (simp add: Status_classified)
  have j: "fetch_job_info env c ?s0 = (?s0, [CallGetJob c])"
    using job s0 by (rule fetch_job_info_failed)
  note run = fetchPrinterStatus_fetched [OF client state]
  show "Status (fst (fetchPrinterStatus h env p)) = ''printing''"
    by (simp add: run j Status_fetch_current_spool s0)
  show "Temperatures (fst (fetchPrinterStatus h env p)) =
          Some \<lparr>BedActual = Actual (Bed (Temperature r)), BedTarget = Target (Bed (Temperature r)),
                HotendActual = Actual (Tool0 (Temperature r)),
                HotendTarget = Target (Tool0 (Temperature r))\<rparr>"
    by (simp add: run j blocks_fetch_current_spool fetched_blocks)
  show "Progress (fst (fetchPrinterStatus h env p)) = None"
    by (simp add: run j blocks_fetch_current_spool fetched_blocks)
  show "ThumbnailURL (fst (fetchPrinterStatus h env p)) = []"
    by (simp add: run j blocks_fetch_current_spool fetched_blocks)
  show "Error (fst (fetchPrinterStatus h env p)) = []"
    by (simp add: run j blocks_fetch_current_spool fetched_blocks)
  show "filter is_job_call (snd (fetchPrinterStatus h env p)) = [CallGetJob c]"
    by (simp add: run j fetch_current_spool_no_job)
  show "filter is_spool_id_call (snd (fetchPrinterStatus h env p)) = [CallGetCurrentSpool c 0]"
    by (simp add: run j fetch_current_spool_events)
next
  show "(filter is_job_call (snd (fetchPrinterStatus h env p)) \<noteq> []) =
        (Status (fst (fetchPrinterStatus h env p)) = ''printing'')"
    by (rule job_calls_fetchPrinterStatus)
qed


theorem job_fetch_failure_keeps_printing_witness:
  "Status (fst (fetchPrinterStatus (NewHandler two_printers)
      (stub_Env [(''http://a/api/printer'', ok_response ''100''),
                 (''http://a/api/job'', Inl ''context deadline exceeded'')] [])
      printer_a)) = ''printing''
   \<and> Temperatures (fst (fetchPrinterStatus (NewHandler two_printers)
      (stub_Env [(''http://a/api/printer'', ok_response ''100''),
                 (''http://a/api/job'', Inl ''context deadline exceeded'')] [])
      printer_a)) =
        Some \<lparr>BedActual = 60, BedTarget = 60, HotendActual = 215, HotendTarget = 220\<rparr>
   \<and> Progress (fst (fetchPrinterStatus (NewHandler two_printers)
      (stub_Env [(''http://a/api/printer'', ok_response ''100''),
                 (''http://a/api/job'', Inl ''context deadline exceeded'')] [])
      printer_a)) = None"
proof -
  let ?env = "stub_Env [(''http://a/api/printer'', ok_response ''100''),
                 (''http://a/api/job'', Inl ''context deadline exceeded'')] []"
  have s: "GetPrinterState ?env client_a = Inr (stub_PrinterResponse True False False)"
    using stub_GetPrinterState_ok [of "CHR ''1''" "CHR ''0''" "CHR ''0''"] by simp
  have f: "Printing (Flags (State_pr (stub_PrinterResponse True False False)))"
    by (simp add: stub_PrinterResponse_def)
  have j: "GetJob ?env client_a = Inl (TransportError ''context deadline exceeded'')"
    by (simp add: GetJob_def newRequest_def doRequest_def stub_Env_def client_a_def)
  show ?thesis
    using job_fetch_failure_keeps_printing [of "NewHandler two_printers" printer_a client_a ?env
        "stub_PrinterResponse True False False" "TransportError ''context deadline exceeded''"]
      NewHandler_two_printers_a s f j
    by (simp add: stub_PrinterResponse_def)
qed

subsection \<open>Failure of the spool steps\<close>

lemma fetch_job_info_cong:
  "GetJob env' c = GetJob env c \<Longrightarrow> float64_to_int env' = float64_to_int env \<Longrightarrow>
     fetch_job_info env' c st = fetch_job_info env c st"
  by (cases "GetJob env c") (simp_all add: fetch_job_info_def)

lemma stub_GetCurrentSpool_ok:
  "GetCurrentSpool
     (stub_Env [(''http://a/api/printer'', ok_response ''010''),
                (''http://a/api/plugin/spoolman_api'', ok_response (''ok:'' @ spoolID))] spools)
     client_a 0 = Inr spoolID"
  by (simp add: GetCurrentSpool_def newRequest_def doRequest_def stub_Env_def client_a_def
      ok_response_def stub_decode_spool_def)

lemma stub_GetJob_refused:
  "GetJob (stub_Env [(''http://a/api/printer'', ok_response ''010''),
                     (''http://a/api/plugin/spoolman_api'', ok_response body)] spools)
     client_a = Inl (TransportError ''connection refused'')"
  by (simp add: GetJob_def newRequest_def doRequest_def stub_Env_def client_a_def)

lemma fetch_current_spool_calls:
  "snd (fetch_current_spool h env c st) =
     CallGetCurrentSpool c 0 #
       (case GetCurrentSpool env c 0 of
          Inl err \<Rightarrow> []
        | Inr spoolID \<Rightarrow> if spoolID \<noteq> [] then [CallGetSpool (spoolmanClient h) spoolID] else [])"
  by (simp add: fetch_current_spool_def split: sum.splits option.splits)

lemma stub_printing_GetPrinterState:
  "GetPrinterState
     (stub_Env [(''http://a/api/printer'', ok_response ''100''),
                (''http://a/api/job'', ok_response ''foo/bar.gcode''),
                (''http://a/api/plugin/spoolman_api'', ok_response ''ok:7'')] spools)
     client_a = Inr (stub_PrinterResponse True False False)"
  using stub_GetPrinterState_ok [of "CHR ''1''" "CHR ''0''" "CHR ''0''"] by simp

lemma stub_printing_GetJob:
  "GetJob
     (stub_Env [(''http://a/api/printer'', ok_response ''100''),
                (''http://a/api/job'', ok_response ''foo/bar.gcode''),
                (''http://a/api/plugin/spoolman_api'', ok_response ''ok:7'')] spools)
     client_a = Inr (stub_JobResponse ''foo/bar.gcode'')"
  by (simp add: GetJob_def newRequest_def doRequest_def stub_Env_def client_a_def ok_response_def)

lemma stub_printing_GetCurrentSpool:
  "GetCurrentSpool
     (stub_Env [(''http://a/api/printer'', ok_response ''100''),
                (''http://a/api/job'', ok_response ''foo/bar.gcode''),
                (''http://a/api/plugin/spoolman_api'', ok_response ''ok:7'')] spools)
     client_a 0 = Inr ''7''"
  by (simp add: GetCurrentSpool_def newRequest_def doRequest_def stub_Env_def client_a_def
      ok_response_def stub_decode_spool_def)

text \<open>
  C7. Once the state of the printer is fetched, the calls of the pipeline are the state
  call, the job call when the printing flag is set, the spool identifier call for tool 0,
  and the inventory lookup of the identifier when the identifier call returned a
  non-empty one: both spool steps are attempted whatever the printing state, and the
  identifier is asked once, for tool 0. When the spool steps fail (the identifier fetch,
  or the inventory lookup of the identifier it returned), the pipeline still returns its
  record, which has no spool block and is otherwise the record of any run against an
  upstream that answers the state and job fetches alike, in particular of one where the
  spool steps succeed: it is that record with the spool block removed. When both steps
  succeed the spool block is the formatted spool.
\<close>

theorem spool_failure_frame:
  assumes client: "octoprintClients h (ID_cfg p) = Some c"
    and state: "GetPrinterState env c = Inr r"
  shows "snd (fetchPrinterStatus h env p) =
           CallGetPrinterState c
             # (if Printing (Flags (State_pr r)) then [CallGetJob c] else [])
             @ CallGetCurrentSpool c 0
             # (case GetCurrentSpool env c 0 of
                  Inl err \<Rightarrow> []
                | Inr spoolID \<Rightarrow>
                    if spoolID \<noteq> [] then [CallGetSpool (spoolmanClient h) spoolID] else [])
       \<and> filter is_spool_id_call (snd (fetchPrinterStatus h env p)) = [CallGetCurrentSpool c 0]
       \<and> (spool_steps_failed h env c \<longrightarrow>
            CurrentSpool (fst (fetchPrinterStatus h env p)) = None)
       \<and> (spool_steps_failed h env c \<and> GetPrinterState env' c = GetPrinterState env c
            \<and> GetJob env' c = GetJob env c \<and> float64_to_int env' = float64_to_int env \<longrightarrow>
            fst (fetchPrinterStatus h env p) =
              (fst (fetchPrinterStatus h env' p))\<lparr>CurrentSpool := None\<rparr>)
       \<and> (GetCurrentSpool env c 0 = Inr spoolID \<and> spoolID \<noteq> []
            \<and> spoolman_GetSpool env (spoolmanClient h) spoolID = Inr (Some spool) \<longrightarrow>
            CurrentSpool (fst (fetchPrinterStatus h env p)) = FormatSpoolInfo env spool)"
proof (intro conjI impI)
  let ?s0 = "set_temperatures r (set_basic_status r (initial_status p)) :: 'b PrinterStatus"
  let ?s1 = "fst (fetch_job_info env c ?s0)"
  note run = fetchPrinterStatus_fetched [OF client state]
  have printing: "(Status ?s0 = ''printing'') = Printing (Flags (State_pr r))"
    by (simp add: Status_classified)
  show "snd (fetchPrinterStatus h env p) =
           CallGetPrinterState c
             # (if Printing (Flags (State_pr r)) then [CallGetJob c] else [])
             @ CallGetCurrentSpool c 0
             # (case GetCurrentSpool env c 0 of
                  Inl err \<Rightarrow> []
                | Inr spoolID \<Rightarrow>
                    if spoolID \<noteq> [] then [CallGetSpool (spoolmanClient h) spoolID] else [])"
    by (simp add: run fetch_current_spool_calls fetch_job_info_events printing)
  show "filter is_spool_id_call (snd (fetchPrinterStatus h env p)) = [CallGetCurrentSpool c 0]"
    by (simp add: run fetch_current_spool_events fetch_job_info_events)
  have none: "CurrentSpool ?s1 = None"
    by (simp add: blocks_fetch_job_info fetched_blocks)
  {
    assume failed: "spool_steps_failed h env c"
    have here: "fst (fetchPrinterStatus h env p) = ?s1"
      by (simp add: run fetch_current_spool_failed [OF failed])
    show "CurrentSpool (fst (fetchPrinterStatus h env p)) = None"
      using none by (simp add: here)
  }
  {
    assume a: "spool_steps_failed h env c \<and> GetPrinterState env' c = GetPrinterState env c
            \<and> GetJob env' c = GetJob env c \<and> float64_to_int env' = float64_to_int env"
    then have failed: "spool_steps_failed h env c"
      and same_job: "GetJob env' c = GetJob env c"
      and same_conversion: "float64_to_int env' = float64_to_int env"
      by simp_all
    from a state have state': "GetPrinterState env' c = Inr r"
      by simp
    have job': "fetch_job_info env' c ?s0 = fetch_job_info env c ?s0"
      using same_job same_conversion by (rule fetch_job_info_cong)
    have here: "fst (fetchPrinterStatus h env p) = ?s1"
      by (simp add: run fetch_current_spool_failed [OF failed])
    have there: "fst (fetchPrinterStatus h env' p) = fst (fetch_current_spool h env' c ?s1)"
      by (simp add: fetchPrinterStatus_fetched [OF client state'] job')
    have "(fst (fetch_current_spool h env' c ?s1))\<lparr>CurrentSpool := None\<rparr>
            = ?s1\<lparr>CurrentSpool := None\<rparr>"
      by (subst fetch_current_spool_frame) simp
    also have "\<dots> = ?s1"
      using none
      by (metis PrinterStatus.update_convs(8) PrinterStatus.surjective
          PrinterStatus.select_convs(8))
    finally have "?s1 = (fst (fetch_current_spool h env' c ?s1))\<lparr>CurrentSpool := None\<rparr>"
      by simp
    then show "fst (fetchPrinterStatus h env p) =
              (fst (fetchPrinterStatus h env' p))\<lparr>CurrentSpool := None\<rparr>"
      by (simp add: here there)
  }
  {
    assume "GetCurrentSpool env c 0 = Inr spoolID \<and> spoolID \<noteq> []
            \<and> spoolman_GetSpool env (spoolmanClient h) spoolID = Inr (Some spool)"
    then show "CurrentSpool (fst (fetchPrinterStatus h env p)) = FormatSpoolInfo env spool"
      by (simp add: run fetch_current_spool_def)
  }
qed

theorem spool_failure_frame_witness:
  "snd (fetchPrinterStatus (NewHandler two_printers)
      (stub_Env [(''http://a/api/printer'', ok_response ''100''),
                 (''http://a/api/job'', ok_response ''foo/bar.gcode''),
                 (''http://a/api/plugin/spoolman_api'', ok_response ''ok:7'')]
                [(''7'', Inl ''HTTP 500: database is locked'')])
      printer_a) =
     [CallGetPrinterState client_a, CallGetJob client_a, CallGetCurrentSpool client_a 0,
      CallGetSpool ''http://spoolman'' ''7'']
   \<and> CurrentSpool (fst (fetchPrinterStatus (NewHandler two_printers)
      (stub_Env [(''http://a/api/printer'', ok_response ''100''),
                 (''http://a/api/job'', ok_response ''foo/bar.gcode''),
                 (''http://a/api/plugin/spoolman_api'', ok_response ''ok:7'')]
                [(''7'', Inl ''HTTP 500: database is locked'')])
      printer_a)) = None
   \<and> fst (fetchPrinterStatus (NewHandler two_printers)
      (stub_Env [(''http://a/api/printer'', ok_response ''100''),
                 (''http://a/api/job'', ok_response ''foo/bar.gcode''),
                 (''http://a/api/plugin/spoolman_api'', ok_response ''ok:7'')]
                [(''7'', Inl ''HTTP 500: database is locked'')])
      printer_a) =
     (fst (fetchPrinterStatus (NewHandler two_printers)
      (stub_Env [(''http://a/api/printer'', ok_response ''100''),
                 (''http://a/api/job'', ok_response ''foo/bar.gcode''),
                 (''http://a/api/plugin/spoolman_api'', ok_response ''ok:7'')]
                [(''7'', Inr (Some ''PLA''))])
      printer_a))\<lparr>CurrentSpool := None\<rparr>
   \<and> CurrentSpool (fst (fetchPrinterStatus (NewHandler two_printers)
      (stub_Env [(''http://a/api/printer'', ok_response ''100''),
                 (''http://a/api/job'', ok_response ''foo/bar.gcode''),
                 (''http://a/api/plugin/spoolman_api'', ok_response ''ok:7'')]
                [(''7'', Inr (Some ''PLA''))])
      printer_a)) = Some ''PLA''
   \<and> snd (fetchPrinterStatus (NewHandler two_printers)
      (stub_Env [(''http://a/api/printer'', ok_response ''010''),
                 (''http://a/api/plugin/spoolman_api'', ok_response ''ok:7'')]
                [(''7'', Inl ''HTTP 500: database is locked'')])
      printer_a) =
     [CallGetPrinterState client_a, CallGetCurrentSpool client_a 0,
      CallGetSpool ''http://spoolman'' ''7'']"
proof -
  let ?routes = "[(''http://a/api/printer'', ok_response ''100''),
                  (''http://a/api/job'', ok_response ''foo/bar.gcode''),
                  (''http://a/api/plugin/spoolman_api'', ok_response ''ok:7'')]"
  let ?env = "stub_Env ?routes [(''7'', Inl ''HTTP 500: database is locked'')]"
  let ?env' = "stub_Env ?routes [(''7'', Inr (Some ''PLA''))]"
  let ?idle = "stub_Env [(''http://a/api/printer'', ok_response ''010''),
                 (''http://a/api/plugin/spoolman_api'', ok_response ''ok:7'')]
                [(''7'', Inl ''HTTP 500: database is locked'')]"
  let ?h = "NewHandler two_printers"
  have s: "GetPrinterState ?env client_a = Inr (stub_PrinterResponse True False False)"
    by (rule stub_printing_GetPrinterState)
  have s': "GetPrinterState ?env' client_a = Inr (stub_PrinterResponse True False False)"
    by (rule stub_printing_GetPrinterState)
  have url: "spoolmanClient ?h = ''http://spoolman''"
    by (simp add: NewHandler_def two_printers_def)
  have failed: "spool_steps_failed ?h ?env client_a"
    by (simp add: spool_steps_failed_def stub_printing_GetCurrentSpool) (simp add: stub_Env_def)
  have same_state: "GetPrinterState ?env' client_a = GetPrinterState ?env client_a"
    by (simp only: stub_printing_GetPrinterState)
  have same_job: "GetJob ?env' client_a = GetJob ?env client_a"
    by (simp only: stub_printing_GetJob)
  have same_conversion: "float64_to_int ?env' = float64_to_int ?env"
    by (simp add: stub_Env_def)
  have found: "spoolman_GetSpool ?env' (spoolmanClient ?h) ''7'' = Inr (Some ''PLA'')"
    by (simp add: stub_Env_def)
  have format: "FormatSpoolInfo ?env' ''PLA'' = Some ''PLA''"
    by (simp add: stub_Env_def)
  have printing: "Printing (Flags (State_pr (stub_PrinterResponse True False False)))"
    by (simp add: stub_PrinterResponse_def)
  have idle_state: "GetPrinterState ?idle client_a = Inr (stub_PrinterResponse False True False)"
    using stub_GetPrinterState_ok [of "CHR ''0''" "CHR ''1''" "CHR ''0''"] by simp
  have idle_id: "GetCurrentSpool ?idle client_a 0 = Inr ''7''"
    using stub_GetCurrentSpool_ok [of "''7''"] by simp
  have not_printing: "\<not> Printing (Flags (State_pr (stub_PrinterResponse False True False)))"
    by (simp add: stub_PrinterResponse_def)
  note failing = spool_failure_frame [OF NewHandler_two_printers_a s,
      where env' = ?env' and spoolID = "''7''" and spool = "''PLA''"]
  note succeeding = spool_failure_frame [OF NewHandler_two_printers_a s',
      where env' = ?env' and spoolID = "''7''" and spool = "''PLA''"]
  note idle = spool_failure_frame [OF NewHandler_two_printers_a idle_state,
      where env' = ?idle and spoolID = "''7''" and spool = "''PLA''"]
  have calls: "snd (fetchPrinterStatus ?h ?env printer_a) =
     [CallGetPrinterState client_a, CallGetJob client_a, CallGetCurrentSpool client_a 0,
      CallGetSpool ''http://spoolman'' ''7'']"
    using failing printing by (simp add: stub_printing_GetCurrentSpool url)
  have none: "CurrentSpool (fst (fetchPrinterStatus ?h ?env printer_a)) = None"
    using failing failed by blast
  have frame: "fst (fetchPrinterStatus ?h ?env printer_a) =
     (fst (fetchPrinterStatus ?h ?env' printer_a))\<lparr>CurrentSpool := None\<rparr>"
    using failing failed same_state same_job same_conversion by blast
  have some: "CurrentSpool (fst (fetchPrinterStatus ?h ?env' printer_a)) = Some ''PLA''"
  proof -
    have "CurrentSpool (fst (fetchPrinterStatus ?h ?env' printer_a)) = FormatSpoolInfo ?env' ''PLA''"
      using succeeding found stub_printing_GetCurrentSpool [of "[(''7'', Inr (Some ''PLA''))]"]
      by blast
    then show ?thesis by (simp only: format)
  qed
  have idle_calls: "snd (fetchPrinterStatus ?h ?idle printer_a) =
     [CallGetPrinterState client_a, CallGetCurrentSpool client_a 0,
      CallGetSpool ''http://spoolman'' ''7'']"
    using idle not_printing by (simp add: idle_id url)
  show ?thesis
    by (intro conjI calls none frame some idle_calls)
qed


subsection \<open>No active spool\<close>

lemma inventory_calls_fetch_job_info:
  "filter is_inventory_call (snd (fetch_job_info env c st)) = []"
  by (simp add: fetch_job_info_events)

text \<open>
  C10. When the spool identifier fetch succeeds with the empty identifier, the pipeline
  does not call the inventory client, and the record has no spool block and no error.
  And \<open>GetCurrentSpool\<close>, for any tool, returns the error "API error: ..." whenever the
  exchange succeeds and the decoded reply has \<^verbatim>\<open>success\<close> false.
\<close>

theorem empty_spool_id_skips_inventory:
  "(octoprintClients h (ID_cfg p) = Some c \<and> GetPrinterState env c = Inr r
      \<and> GetCurrentSpool env c 0 = Inr [] \<longrightarrow>
        filter is_inventory_call (snd (fetchPrinterStatus h env p)) = []
      \<and> CurrentSpool (fst (fetchPrinterStatus h env p)) = None
      \<and> Error (fst (fetchPrinterStatus h env p)) = [])
   \<and> (newRequest env' c' ''POST'' ''/api/plugin/spoolman_api''
         (Some [(''command'', JString ''get_current_spool''), (''tool'', JInt tool)]) = Inr req
      \<and> http_Do env' req = Inr resp \<and> StatusCode resp < 400
      \<and> decode_SpoolReply env' (Body_resp resp) = Inr reply \<and> \<not> Success reply \<longrightarrow>
        GetCurrentSpool env' c' tool = Inl (ApiError (Error_reply reply))
      \<and> Error_text (ApiError (Error_reply reply)) = ''API error: '' @ Error_reply reply)"
proof (intro conjI impI)
  assume a: "octoprintClients h (ID_cfg p) = Some c \<and> GetPrinterState env c = Inr r
      \<and> GetCurrentSpool env c 0 = Inr []"
  then have client: "octoprintClients h (ID_cfg p) = Some c"
    and state: "GetPrinterState env c = Inr r"
    and empty: "GetCurrentSpool env c 0 = Inr []"
    by simp_all
  note run = fetchPrinterStatus_fetched [OF client state] fetch_current_spool_empty_id [OF empty]
  show "filter is_inventory_call (snd (fetchPrinterStatus h env p)) = []"
    by (simp add: run inventory_calls_fetch_job_info)
  show "CurrentSpool (fst (fetchPrinterStatus h env p)) = None"
    by (simp add: run blocks_fetch_job_info fetched_blocks)
  show "Error (fst (fetchPrinterStatus h env p)) = []"
    by (simp add: run blocks_fetch_job_info fetched_blocks)
next
  assume b: "newRequest env' c' ''POST'' ''/api/plugin/spoolman_api''
         (Some [(''command'', JString ''get_current_spool''), (''tool'', JInt tool)]) = Inr req
      \<and> http_Do env' req = Inr resp \<and> StatusCode resp < 400
      \<and> decode_SpoolReply env' (Body_resp resp) = Inr reply \<and> \<not> Success reply"
  then show "GetCurrentSpool env' c' tool = Inl (ApiError (Error_reply reply))"
    by (simp add: GetCurrentSpool_def doRequest_def)
next
  show "Error_text (ApiError (Error_reply reply)) = ''API error: '' @ Error_reply reply"
    by simp
qed

theorem empty_spool_id_skips_inventory_witness:
  "snd (fetchPrinterStatus (NewHandler two_printers)
      (stub_Env [(''http://a/api/printer'', ok_response ''010''),
                 (''http://a/api/plugin/spoolman_api'', ok_response ''ok:'')]
                [([], Inr (Some ''PLA''))])
      printer_a) = [CallGetPrinterState client_a, CallGetCurrentSpool client_a 0]
   \<and> CurrentSpool (fst (fetchPrinterStatus (NewHandler two_printers)
      (stub_Env [(''http://a/api/printer'', ok_response ''010''),
                 (''http://a/api/plugin/spoolman_api'', ok_response ''ok:'')]
                [([], Inr (Some ''PLA''))])
      printer_a)) = None
   \<and> Error (fst (fetchPrinterStatus (NewHandler two_printers)
      (stub_Env [(''http://a/api/printer'', ok_response ''010''),
                 (''http://a/api/plugin/spoolman_api'', ok_response ''ok:'')]
                [([], Inr (Some ''PLA''))])
      printer_a)) = []
   \<and> GetCurrentSpool
        (stub_Env [(''http://a/api/plugin/spoolman_api'', ok_response ''no:no spool selected'')] [])
        client_a 0 = Inl (ApiError ''no spool selected'')"
proof -
  let ?env = "stub_Env [(''http://a/api/printer'', ok_response ''010''),
                 (''http://a/api/plugin/spoolman_api'', ok_response ''ok:'')]
                [([], Inr (Some ''PLA''))]"
  let ?env2 = "stub_Env [(''http://a/api/plugin/spoolman_api'', ok_response ''no:no spool selected'')] []"
  let ?req = "\<lparr>Method = ''POST'', URL = ''http://a/api/plugin/spoolman_api'',
               Header = [(''X-Api-Key'', ''ka''), (''Content-Type'', ''application/json'')],
               Body = Some [(''command'', JString ''get_current_spool''), (''tool'', JInt 0)]\<rparr>"
  let ?reply = "\<lparr>Success = False, SpoolID = [], Error_reply = ''no spool selected''\<rparr>"
  have s: "GetPrinterState ?env client_a = Inr (stub_PrinterResponse False True False)"
    using stub_GetPrinterState_ok [of "CHR ''0''" "CHR ''1''" "CHR ''0''"] by simp
  have e: "GetCurrentSpool ?env client_a 0 = Inr []"
    using stub_GetCurrentSpool_ok [of "[]"] by simp
  have q: "newRequest ?env2 client_a ''POST'' ''/api/plugin/spoolman_api''
         (Some [(''command'', JString ''get_current_spool''), (''tool'', JInt 0)]) = Inr ?req"
    by (simp add: newRequest_def stub_Env_def client_a_def)
  have d: "http_Do ?env2 ?req = Inr \<lparr>StatusCode = 200, Body_resp = ''no:no spool selected''\<rparr>"
    by (simp add: stub_Env_def ok_response_def)
  have r: "decode_SpoolReply ?env2 ''no:no spool selected'' = Inr ?reply"
    by (simp add: stub_Env_def stub_decode_spool_def)
  have events: "snd (fetchPrinterStatus (NewHandler two_printers) ?env printer_a) =
                  [CallGetPrinterState client_a, CallGetCurrentSpool client_a 0]"
    by (simp add: fetchPrinterStatus_fetched [OF NewHandler_two_printers_a s]
        fetch_current_spool_empty_id [OF e] fetch_job_info_events Status_classified
        stub_PrinterResponse_def)
  show ?thesis
    using empty_spool_id_skips_inventory [where h = "NewHandler two_printers" and p = printer_a
        and c = client_a and env = ?env and r = "stub_PrinterResponse False True False"
        and env' = ?env2 and c' = client_a and tool = 0 and req = ?req
        and resp = "\<lparr>StatusCode = 200, Body_resp = ''no:no spool selected''\<rparr>"
        and reply = ?reply]
      NewHandler_two_printers_a s e q d r events
    by simp
qed



subsection \<open>Thumbnail URL\<close>

lemma TrimSuffix_gcode_once:
  assumes "\<not> HasSuffix path ''.bgcode.gcode''"
  shows "TrimSuffix (TrimSuffix path ''.gcode'') ''.bgcode'' = strip_extension_spec path"
proof (cases "HasSuffix path ''.gcode''")
  case True
  then obtain t where t: "path = t @ ''.gcode''"
    unfolding HasSuffix_iff by blast
  have "\<not> HasSuffix t ''.bgcode''"
  proof
    assume "HasSuffix t ''.bgcode''"
    then obtain u where "t = u @ ''.bgcode''"
      unfolding HasSuffix_iff by blast
    with t have "path = u @ ''.bgcode.gcode''" by simp
    then have "HasSuffix path ''.bgcode.gcode''"
      unfolding HasSuffix_iff by blast
    with assms show False by simp
  qed
  then have "TrimSuffix (TrimSuffix path ''.gcode'') ''.bgcode'' = t"
    by (simp add: t TrimSuffix_none)
  moreover have "strip_extension_spec path = t"
    by (simp add: strip_extension_spec_def t)
  ultimately show ?thesis by simp
next
  case False
  then show ?thesis
    by (simp add: TrimSuffix_none strip_extension_spec_def) (simp add: TrimSuffix_def eval_nat_numeral)
qed

lemma TrimSuffix_both: "TrimSuffix (TrimSuffix (s @ ''.bgcode.gcode'') ''.gcode'') ''.bgcode'' = s"
proof -
  have "s @ ''.bgcode.gcode'' = (s @ ''.bgcode'') @ ''.gcode''" by simp
  then have "TrimSuffix (s @ ''.bgcode.gcode'') ''.gcode'' = s @ ''.bgcode''"
    by (simp only: TrimSuffix_append)
  then show ?thesis by (simp only: TrimSuffix_append)
qed

text \<open>
  C8, as stated: for every non-empty path the URL is the template applied to the path
  with one trailing \<^verbatim>\<open>.gcode\<close> or \<^verbatim>\<open>.bgcode\<close> extension removed. The path
  \<^verbatim>\<open>a.bgcode.gcode\<close> loses both suffixes on the code, where the statement gives the
  template applied to \<^verbatim>\<open>a.bgcode\<close>.
\<close>

theorem thumbnail_double_extension_counterexample:
  "GetThumbnail client_a ''a.bgcode.gcode'' = ''http://a/plugin/prusaslicerthumbnails/thumbnail/a.png''
   \<and> thumbnail_spec client_a ''a.bgcode.gcode''
        = ''http://a/plugin/prusaslicerthumbnails/thumbnail/a.bgcode.png''
   \<and> GetThumbnail client_a ''a.bgcode.gcode'' \<noteq> thumbnail_spec client_a ''a.bgcode.gcode''"
  by (simp add: GetThumbnail_def thumbnail_spec_def strip_extension_spec_def TrimSuffix_def
      HasSuffix_def thumbnail_template_def client_a_def)

text \<open>
  C8, amended: the derivation is a total function of the client's base URL and the path.
  The empty path gives the empty string. A non-empty path that does not end in
  \<^verbatim>\<open>.bgcode.gcode\<close> gives the template applied to the path with its trailing
  \<^verbatim>\<open>.gcode\<close> or \<^verbatim>\<open>.bgcode\<close> removed, if it has one. A path ending in
  \<^verbatim>\<open>.bgcode.gcode\<close> loses both suffixes.
\<close>

theorem thumbnail_derivation:
  "GetThumbnail c [] = []
   \<and> (path \<noteq> [] \<and> \<not> HasSuffix path ''.bgcode.gcode'' \<longrightarrow>
        GetThumbnail c path =
          baseURL c @ ''/plugin/prusaslicerthumbnails/thumbnail/'' @ strip_extension_spec path @ ''.png'')
   \<and> GetThumbnail c (s @ ''.bgcode.gcode'') =
        baseURL c @ ''/plugin/prusaslicerthumbnails/thumbnail/'' @ s @ ''.png''"
proof (intro conjI impI)
  show "GetThumbnail c [] = []"
    by (simp add: GetThumbnail_def)
next
  assume a: "path \<noteq> [] \<and> \<not> HasSuffix path ''.bgcode.gcode''"
  then have "TrimSuffix (TrimSuffix path ''.gcode'') ''.bgcode'' = strip_extension_spec path"
    by (simp add: TrimSuffix_gcode_once)
  with a show "GetThumbnail c path =
          baseURL c @ ''/plugin/prusaslicerthumbnails/thumbnail/'' @ strip_extension_spec path @ ''.png''"
    by (simp add: GetThumbnail_def thumbnail_template_def)
next
  show "GetThumbnail c (s @ ''.bgcode.gcode'') =
        baseURL c @ ''/plugin/prusaslicerthumbnails/thumbnail/'' @ s @ ''.png''"
    by (simp add: GetThumbnail_def thumbnail_template_def TrimSuffix_both del: append_assoc)
qed

theorem thumbnail_derivation_witness:
  "GetThumbnail client_a [] = []
   \<and> GetThumbnail client_a ''foo/bar.gcode''
        = ''http://a/plugin/prusaslicerthumbnails/thumbnail/foo/bar.png''
   \<and> GetThumbnail client_a ''a.bgcode.gcode'' = ''http://a/plugin/prusaslicerthumbnails/thumbnail/a.png''"
proof -
  have n: "''foo/bar.gcode'' \<noteq> [] \<and> \<not> HasSuffix ''foo/bar.gcode'' ''.bgcode.gcode''"
    by (simp add: HasSuffix_def)
  have st: "strip_extension_spec ''foo/bar.gcode'' = ''foo/bar''"
    by (simp add: strip_extension_spec_def HasSuffix_def)
  show ?thesis
    using thumbnail_derivation [of client_a "''foo/bar.gcode''" "''a''"] n st
    by (simp add: client_a_def)
qed


subsection \<open>Order of the snapshot\<close>

text \<open>With the exhausted schedule the records come in configuration order.\<close>

lemma handleStatus_launch_order:
  "printers_json (handleStatus h env []) =
     map (\<lambda>p. fst (fetchPrinterStatus h env p)) (Printers (config h))"
  by (simp add: handleStatus_def complete_sends_launch_order)

text \<open>
  C1. The poll returns one record per configured printer (\<open>length_handleStatus\<close>,
  \<open>mset_handleStatus\<close>), in the order in which the pipelines complete, which need not be
  the order of the configuration: with printers a and b configured in this order, a
  printing and b refusing the connection, a run where the pipeline of b completes first
  answers with the record of b before the record of a.
\<close>

theorem snapshot_in_completion_order:
  "map ID_cfg (Printers (config (NewHandler two_printers))) = [''a'', ''b'']
   \<and> map ID (printers_json (handleStatus (NewHandler two_printers) upstream_a_printing [1]))
        = [''b'', ''a'']
   \<and> map Status (printers_json (handleStatus (NewHandler two_printers) upstream_a_printing [1]))
        = [''offline'', ''printing'']"
proof -
  let ?h = "NewHandler two_printers"
  have a: "octoprintClients ?h (ID_cfg printer_a) = Some client_a"
    by (rule NewHandler_two_printers_a)
  have b: "octoprintClients ?h (ID_cfg printer_b) = Some (NewClient ''http://b'' ''kb'')"
    by (simp add: NewHandler_def two_printers_def printer_a_def printer_b_def)
  have sa: "GetPrinterState upstream_a_printing client_a = Inr (stub_PrinterResponse True False False)"
    unfolding upstream_a_printing_def
    using stub_GetPrinterState_ok [of "CHR ''1''" "CHR ''0''" "CHR ''0''"] by simp
  have sb: "GetPrinterState upstream_a_printing (NewClient ''http://b'' ''kb'')
              = Inl (TransportError ''connection refused'')"
    by (simp add: GetPrinterState_def newRequest_def doRequest_def stub_Env_def NewClient_def
        upstream_a_printing_def)
  have ra: "ID (fst (fetchPrinterStatus ?h upstream_a_printing printer_a)) = ''a''
          \<and> Status (fst (fetchPrinterStatus ?h upstream_a_printing printer_a)) = ''printing''"
    by (simp add: fetchPrinterStatus_fetched [OF a sa] identity_fetch_current_spool
        identity_fetch_job_info identity_initial Status_fetch_current_spool
        Status_fetch_job_info Status_classified)
       (simp add: printer_a_def stub_PrinterResponse_def)
  have rb: "ID (fst (fetchPrinterStatus ?h upstream_a_printing printer_b)) = ''b''
          \<and> Status (fst (fetchPrinterStatus ?h upstream_a_printing printer_b)) = ''offline''"
    by (simp add: fetchPrinterStatus_state_failed [OF b sb] initial_status_def)
       (simp add: printer_b_def)
  have order: "printers_json (handleStatus ?h upstream_a_printing [1]) =
                 [fst (fetchPrinterStatus ?h upstream_a_printing printer_b),
                  fst (fetchPrinterStatus ?h upstream_a_printing printer_a)]"
    by (simp add: handleStatus_def NewHandler_def two_printers_def)
  have cfg: "map ID_cfg (Printers (config ?h)) = [''a'', ''b'']"
    by (simp add: NewHandler_def two_printers_def printer_a_def printer_b_def)
  show ?thesis
    unfolding order using ra rb cfg by simp
qed

text \<open>
  C5. Two polls of the same handler against the same upstream, one where the pipeline of
  a completes first and one where that of b does, answer with the same two records in
  different orders, so the two responses differ.
\<close>

theorem snapshot_order_differs_between_polls:
  "printers_json (handleStatus (NewHandler two_printers) (stub_Env [] []) [0]) =
     [\<lparr>ID = ''a'', Name = ''Alpha'', OctoPrintURL = ''http://a'', Status = ''offline'',
       State = [], Progress = None, Temperatures = None, CurrentSpool = None,
       ThumbnailURL = [], Error = ''connection refused''\<rparr>,
      \<lparr>ID = ''b'', Name = ''Beta'', OctoPrintURL = ''http://b'', Status = ''offline'',
       State = [], Progress = None, Temperatures = None, CurrentSpool = None,
       ThumbnailURL = [], Error = ''connection refused''\<rparr>]
   \<and> printers_json (handleStatus (NewHandler two_printers) (stub_Env [] []) [1]) =
     [\<lparr>ID = ''b'', Name = ''Beta'', OctoPrintURL = ''http://b'', Status = ''offline'',
       State = [], Progress = None, Temperatures = None, CurrentSpool = None,
       ThumbnailURL = [], Error = ''connection refused''\<rparr>,
      \<lparr>ID = ''a'', Name = ''Alpha'', OctoPrintURL = ''http://a'', Status = ''offline'',
       State = [], Progress = None, Temperatures = None, CurrentSpool = None,
       ThumbnailURL = [], Error = ''connection refused''\<rparr>]
   \<and> handleStatus (NewHandler two_printers) (stub_Env [] []) [0]
       \<noteq> handleStatus (NewHandler two_printers) (stub_Env [] []) [1]"
  by (simp add: handleStatus_def NewHandler_def two_printers_def Let_def fetchPrinterStatus_def
      initial_status_def GetPrinterState_def newRequest_def doRequest_def stub_Env_def
      NewClient_def printer_a_def printer_b_def)


end
